theory Spec2Isabelle
  imports Main "HOL-Library.Word"
begin

unbundle bit_operations_syntax

section \<open>The LibrIA Telegram bot worker\<close>

text \<open>
  A shallow embedding of \<^verbatim>\<open>libria-telegram-bot/src/index.js\<close>, a Cloudflare Worker
  with two endpoints: the Telegram webhook (\<^verbatim>\<open>handleTelegramWebhook\<close>), which turns
  a \<^verbatim>\<open>/start CODE\<close> message into a record in the KV namespace, and the lookup
  (\<^verbatim>\<open>handleGetChatId\<close>), which reads such a record back.

  JavaScript strings are modelled as \<^typ>\<open>string\<close>, a text being the list of its UTF-8
  bytes, so that \<^verbatim>\<open>TextEncoder.encode\<close> is the identity on the bytes.
  Every exception the source can raise is a value of \<open>js_error\<close>; an asynchronous function
  is modelled by the function from the state before the call to the state after it.
\<close>

subsection \<open>The platform: SHA-256 and HMAC (WebCrypto \<^verbatim>\<open>crypto.subtle\<close>)\<close>

text \<open>
  \<^verbatim>\<open>crypto.subtle.sign('HMAC', key, data)\<close> with hash SHA-256 is the HMAC of RFC 2104
  over the SHA-256 of FIPS 180-4. Both are written out, on 32-bit words.
\<close>

type_synonym byte = "8 word"
type_synonym word32 = "32 word"

definition K256 :: "word32 list" where
  "K256 =
   [0x428A2F98, 0x71374491, 0xB5C0FBCF, 0xE9B5DBA5, 0x3956C25B, 0x59F111F1, 0x923F82A4, 0xAB1C5ED5,
    0xD807AA98, 0x12835B01, 0x243185BE, 0x550C7DC3, 0x72BE5D74, 0x80DEB1FE, 0x9BDC06A7, 0xC19BF174,
    0xE49B69C1, 0xEFBE4786, 0x0FC19DC6, 0x240CA1CC, 0x2DE92C6F, 0x4A7484AA, 0x5CB0A9DC, 0x76F988DA,
    0x983E5152, 0xA831C66D, 0xB00327C8, 0xBF597FC7, 0xC6E00BF3, 0xD5A79147, 0x06CA6351, 0x14292967,
    0x27B70A85, 0x2E1B2138, 0x4D2C6DFC, 0x53380D13, 0x650A7354, 0x766A0ABB, 0x81C2C92E, 0x92722C85,
    0xA2BFE8A1, 0xA81A664B, 0xC24B8B70, 0xC76C51A3, 0xD192E819, 0xD6990624, 0xF40E3585, 0x106AA070,
    0x19A4C116, 0x1E376C08, 0x2748774C, 0x34B0BCB5, 0x391C0CB3, 0x4ED8AA4A, 0x5B9CCA4F, 0x682E6FF3,
    0x748F82EE, 0x78A5636F, 0x84C87814, 0x8CC70208, 0x90BEFFFA, 0xA4506CEB, 0xBEF9A3F7, 0xC67178F2]"

record hash_state =
  ha :: word32
  hb :: word32
  hc :: word32
  hd_w :: word32
  he :: word32
  hf :: word32
  hg :: word32
  hh :: word32

definition H256 :: hash_state where
  "H256 = \<lparr>ha = 0x6A09E667, hb = 0xBB67AE85, hc = 0x3C6EF372, hd_w = 0xA54FF53A,
            he = 0x510E527F, hf = 0x9B05688C, hg = 0x1F83D9AB, hh = 0x5BE0CD19\<rparr>"

definition Ch :: "word32 \<Rightarrow> word32 \<Rightarrow> word32 \<Rightarrow> word32" where
  "Ch x y z = (x AND y) XOR (NOT x AND z)"

definition Maj :: "word32 \<Rightarrow> word32 \<Rightarrow> word32 \<Rightarrow> word32" where
  "Maj x y z = (x AND y) XOR (x AND z) XOR (y AND z)"

definition Sigma0 :: "word32 \<Rightarrow> word32" where
  "Sigma0 x = word_rotr 2 x XOR word_rotr 13 x XOR word_rotr 22 x"

definition Sigma1 :: "word32 \<Rightarrow> word32" where
  "Sigma1 x = word_rotr 6 x XOR word_rotr 11 x XOR word_rotr 25 x"

definition sigma0 :: "word32 \<Rightarrow> word32" where
  "sigma0 x = word_rotr 7 x XOR word_rotr 18 x XOR drop_bit 3 x"

definition sigma1 :: "word32 \<Rightarrow> word32" where
  "sigma1 x = word_rotr 17 x XOR word_rotr 19 x XOR drop_bit 10 x"

text \<open>Big-endian packing of bytes into words and back.\<close>

definition be32 :: "byte \<Rightarrow> byte \<Rightarrow> byte \<Rightarrow> byte \<Rightarrow> word32" where
  "be32 b0 b1 b2 b3 =
     push_bit 24 (ucast b0) OR push_bit 16 (ucast b1) OR push_bit 8 (ucast b2) OR ucast b3"

definition word32_bytes :: "word32 \<Rightarrow> byte list" where
  "word32_bytes w = [ucast (drop_bit 24 w), ucast (drop_bit 16 w), ucast (drop_bit 8 w), ucast w]"

definition length_bytes :: "nat \<Rightarrow> byte list" where
  "length_bytes n =
     (let l = (of_nat n :: 64 word)
      in map (\<lambda>i. ucast (drop_bit (8 * (7 - i)) l)) [0..<8])"

fun words_of :: "byte list \<Rightarrow> word32 list" where
  "words_of (b0 # b1 # b2 # b3 # bs) = be32 b0 b1 b2 b3 # words_of bs"
| "words_of _ = []"

text \<open>
  The message followed by the byte 0x80, zero bytes up to 56 modulo 64, and the length of
  the message in bits on 8 bytes.
\<close>

definition sha256_pad :: "byte list \<Rightarrow> byte list" where
  "sha256_pad m =
     m @ [0x80] @ replicate ((119 - length m mod 64) mod 64) 0 @ length_bytes (8 * length m)"

text \<open>The message schedule: 16 words of the block extended to 64.\<close>

fun schedule :: "nat \<Rightarrow> word32 list \<Rightarrow> word32 list" where
  "schedule 0 w = w"
| "schedule (Suc n) w =
     (let t = length w
      in schedule n
           (w @ [sigma1 (w ! (t - 2)) + w ! (t - 7) + sigma0 (w ! (t - 15)) + w ! (t - 16)]))"

definition round256 :: "hash_state \<Rightarrow> word32 \<times> word32 \<Rightarrow> hash_state" where
  "round256 s kw =
     (let t1 = hh s + Sigma1 (he s) + Ch (he s) (hf s) (hg s) + fst kw + snd kw;
          t2 = Sigma0 (ha s) + Maj (ha s) (hb s) (hc s)
      in \<lparr>ha = t1 + t2, hb = ha s, hc = hb s, hd_w = hc s,
          he = hd_w s + t1, hf = he s, hg = hf s, hh = hg s\<rparr>)"

definition compress :: "hash_state \<Rightarrow> word32 list \<Rightarrow> hash_state" where
  "compress s block =
     (let s' = foldl round256 s (zip K256 (schedule 48 block))
      in \<lparr>ha = ha s + ha s', hb = hb s + hb s', hc = hc s + hc s', hd_w = hd_w s + hd_w s',
          he = he s + he s', hf = hf s + hf s', hg = hg s + hg s', hh = hh s + hh s'\<rparr>)"

fun blocks :: "nat \<Rightarrow> hash_state \<Rightarrow> word32 list \<Rightarrow> hash_state" where
  "blocks 0 s ws = s"
| "blocks (Suc n) s ws = blocks n (compress s (take 16 ws)) (drop 16 ws)"

definition sha256 :: "byte list \<Rightarrow> byte list" where
  "sha256 m =
     (let ws = words_of (sha256_pad m);
          s = blocks (length ws div 16) H256 ws
      in concat (map word32_bytes [ha s, hb s, hc s, hd_w s, he s, hf s, hg s, hh s]))"

definition hmac_sha256 :: "byte list \<Rightarrow> byte list \<Rightarrow> byte list" where
  "hmac_sha256 key m =
     (let k0 = (if 64 < length key then sha256 key else key);
          k = k0 @ replicate (64 - length k0) 0
      in sha256 (map (\<lambda>b. b XOR 0x5c) k @ sha256 (map (\<lambda>b. b XOR 0x36) k @ m)))"

subsection \<open>JavaScript values and texts\<close>

datatype js_error = SyntaxError | TypeError | DataError | NetworkError | KVError

text \<open>
  A value produced by \<^verbatim>\<open>JSON.parse\<close>. JavaScript's \<^verbatim>\<open>undefined\<close> is not a JSON value:
  an expression that may be undefined has type \<open>json option\<close>, \<open>None\<close> being undefined.
  Numbers are the integers (chat identifiers and millisecond timestamps); an object is the
  list of its members, each key once.
\<close>

datatype json =
  JNull | JBool bool | JNum int | JStr string | JArr "json list" | JObj "(string \<times> json) list"

text \<open>
  A payload, the text of a stored value or of an HTTP body: either the serialisation of a
  JSON value, identified with that value, or a text that is not valid JSON (such as the empty text or \<^verbatim>\<open>OK\<close>), on which \<^verbatim>\<open>JSON.parse\<close>
  throws.
\<close>

datatype payload = JsonText json | RawText string

text \<open>
  \<^verbatim>\<open>JSON.stringify\<close> of an object literal: a property whose value is undefined is left out.
\<close>

definition JSON_stringify :: "(string \<times> json option) list \<Rightarrow> payload" where
  "JSON_stringify props =
     JsonText (JObj (concat (map (\<lambda>(k, v). case v of None \<Rightarrow> [] | Some j \<Rightarrow> [(k, j)]) props)))"

fun JSON_parse :: "payload \<Rightarrow> js_error + json" where
  "JSON_parse (JsonText j) = Inr j"
| "JSON_parse (RawText s) = Inl SyntaxError"

text \<open>
  Reading the property \<open>k\<close> of a value, for the property names the worker reads
  (\<^verbatim>\<open>message\<close>, \<^verbatim>\<open>text\<close>, \<^verbatim>\<open>chat\<close>, \<^verbatim>\<open>id\<close>, \<^verbatim>\<open>chat_id\<close>, \<^verbatim>\<open>timestamp\<close>): on \<^verbatim>\<open>null\<close>
  and on undefined it throws, on an object it is the member or undefined, on any other
  value it is undefined.
\<close>

fun get_prop :: "json \<Rightarrow> string \<Rightarrow> js_error + json option" where
  "get_prop JNull k = Inl TypeError"
| "get_prop (JObj ms) k = Inr (map_of ms k)"
| "get_prop _ k = Inr None"

fun read_prop :: "json option \<Rightarrow> string \<Rightarrow> js_error + json option" where
  "read_prop None k = Inl TypeError"
| "read_prop (Some v) k = get_prop v k"

text \<open>Optional chaining \<^verbatim>\<open>v?.k\<close>: undefined when \<open>v\<close> is \<^verbatim>\<open>null\<close> or undefined.\<close>

fun opt_prop :: "json option \<Rightarrow> string \<Rightarrow> js_error + json option" where
  "opt_prop None k = Inr None"
| "opt_prop (Some JNull) k = Inr None"
| "opt_prop (Some v) k = get_prop v k"

subsection \<open>String methods\<close>

definition startsWith :: "string \<Rightarrow> string \<Rightarrow> bool" where
  "startsWith s p = (take (length p) s = p)"

text \<open>\<^verbatim>\<open>s.split(sep)\<close> for a separator of one character: never the empty list.\<close>

fun split :: "string \<Rightarrow> char \<Rightarrow> string list" where
  "split [] sep = [[]]"
| "split (c # cs) sep =
     (if c = sep then [] # split cs sep
      else (case split cs sep of [] \<Rightarrow> [[c]] | p # ps \<Rightarrow> (c # p) # ps))"

text \<open>
  \<^verbatim>\<open>toUpperCase\<close> on ASCII text: the letters a to z are mapped to A to Z, every other
  ASCII character to itself. The bytes of a character beyond ASCII are left as they are;
  the case mapping of such characters is outside the model.
\<close>

definition upper_char :: "char \<Rightarrow> char" where
  "upper_char c =
     (let n = (of_char c :: nat) in if 97 \<le> n \<and> n \<le> 122 then char_of (n - 32) else c)"

definition toUpperCase :: "string \<Rightarrow> string" where
  "toUpperCase s = map upper_char s"

definition substring :: "nat \<Rightarrow> nat \<Rightarrow> string \<Rightarrow> string" where
  "substring i j s = take (j - i) (drop i s)"

definition padStart :: "nat \<Rightarrow> char \<Rightarrow> string \<Rightarrow> string" where
  "padStart n c s = replicate (n - length s) c @ s"

definition hex_digit :: "nat \<Rightarrow> char" where
  "hex_digit d = ''0123456789abcdef'' ! d"

text \<open>\<^verbatim>\<open>b.toString(16)\<close> of a non-negative integer.\<close>

function toString16 :: "nat \<Rightarrow> string" where
  "toString16 n = (if n < 16 then [hex_digit n] else toString16 (n div 16) @ [hex_digit (n mod 16)])"
  by pat_completeness auto
termination
  by (relation "measure id") auto

declare toString16.simps [simp del]

definition encode :: "string \<Rightarrow> byte list" where
  "encode s = map of_char s"

subsection \<open>\<^verbatim>\<open>calcularFirma\<close>\<close>

text \<open>
  \<^verbatim>\<open>crypto.subtle.importKey\<close> of a raw HMAC key throws a DataError on the empty key
  (the case of an unset \<^verbatim>\<open>TELEGRAM_SECRET_KEY\<close>).
\<close>

definition importKey :: "byte list \<Rightarrow> js_error + byte list" where
  "importKey raw = (if raw = [] then Inl DataError else Inr raw)"

definition sign :: "byte list \<Rightarrow> byte list \<Rightarrow> byte list" where
  "sign key data = hmac_sha256 key data"

definition calcularFirma :: "string \<Rightarrow> string \<Rightarrow> js_error + string" where
  "calcularFirma codigo secret =
     (case importKey (encode secret) of
        Inl e \<Rightarrow> Inl e
      | Inr key \<Rightarrow>
          (let signature = sign key (encode codigo);
               hashArray = map unat signature;
               hashHex = concat (map (\<lambda>b. padStart 2 CHR ''0'' (toString16 b)) hashArray)
           in Inr (toUpperCase (substring 0 8 hashHex))))"

subsection \<open>The environment: KV namespace, clock, network\<close>

text \<open>
  The KV namespace \<^verbatim>\<open>env.LIBRIA_KV\<close>: under each key a stored text and the time
  (milliseconds) at which it expires. \<open>expiry_enforced\<close> is the store-level guarantee
  that a key is no longer returned once its expiration has passed, as Cloudflare KV
  gives it; the handlers themselves never compare a timestamp with the clock.
\<close>

record kv_namespace =
  entries :: "string \<Rightarrow> (payload \<times> nat) option"
  expiry_enforced :: bool

definition kv_get :: "kv_namespace \<Rightarrow> nat \<Rightarrow> string \<Rightarrow> payload option" where
  "kv_get ns t key =
     (case entries ns key of
        None \<Rightarrow> None
      | Some (v, expires) \<Rightarrow> if expiry_enforced ns \<and> expires \<le> t then None else Some v)"

text \<open>\<^verbatim>\<open>put(key, value, {expirationTtl: ttl})\<close>, the time to live in seconds.\<close>

definition kv_put :: "kv_namespace \<Rightarrow> nat \<Rightarrow> string \<Rightarrow> payload \<Rightarrow> nat \<Rightarrow> kv_namespace" where
  "kv_put ns t key v ttl = ns\<lparr>entries := (entries ns)(key \<mapsto> (v, t + 1000 * ttl))\<rparr>"

record env =
  TELEGRAM_BOT_TOKEN :: string
  TELEGRAM_SECRET_KEY :: string
  LIBRIA_KV :: kv_namespace

text \<open>An outbound \<^verbatim>\<open>fetch(url, {method, headers, body})\<close>.\<close>

record http_call =
  call_url :: string
  call_method :: string
  call_headers :: "(string \<times> string) list"
  call_body :: payload

text \<open>
  The state the worker acts on: its bindings, and the calls it has made to the Telegram
  API, oldest first.
\<close>

record world =
  bindings :: env
  network :: "http_call list"

text \<open>
  What the outside decides for one request: the clock (\<^verbatim>\<open>Date.now()\<close>, milliseconds),
  and whether a KV read, a KV write or the outbound \<^verbatim>\<open>fetch\<close> fails with an exception.
\<close>

record ambient =
  now :: nat
  kv_get_throws :: bool
  kv_put_throws :: bool
  fetch_throws :: bool

text \<open>
  An inbound request: the method \<^verbatim>\<open>request.method\<close>, the path and the decoded query parameters of
  \<^verbatim>\<open>new URL(request.url)\<close>, and the JSON value of the body (\<open>None\<close> when the body is
  not valid JSON, so that \<^verbatim>\<open>request.json()\<close> throws).
\<close>

record request =
  http_method :: string
  pathname :: string
  searchParams :: "(string \<times> string) list"
  body_json :: "json option"

definition request_json :: "request \<Rightarrow> js_error + json" where
  "request_json req = (case body_json req of None \<Rightarrow> Inl SyntaxError | Some j \<Rightarrow> Inr j)"

text \<open>\<^verbatim>\<open>url.searchParams.get(name)\<close>: the first value of the parameter, \<^verbatim>\<open>null\<close> without one.\<close>

definition searchParams_get :: "request \<Rightarrow> string \<Rightarrow> string option" where
  "searchParams_get req name = map_of (searchParams req) name"

record response =
  status :: nat
  body :: payload

text \<open>\<^verbatim>\<open>new Response(text, {status})\<close> and \<^verbatim>\<open>Response.json(obj, {status})\<close>.\<close>

definition Response :: "string \<Rightarrow> nat \<Rightarrow> response" where
  "Response t st = \<lparr>status = st, body = RawText t\<rparr>"

definition Response_json :: "(string \<times> json option) list \<Rightarrow> nat \<Rightarrow> response" where
  "Response_json obj st = \<lparr>status = st, body = JSON_stringify obj\<rparr>"

subsection \<open>\<^verbatim>\<open>sendTelegramMessage\<close>\<close>

definition sendTelegramMessage ::
  "ambient \<Rightarrow> env \<Rightarrow> json option \<Rightarrow> string \<Rightarrow> bool \<Rightarrow> http_call list
     \<Rightarrow> http_call list \<times> (js_error + unit)" where
  "sendTelegramMessage a e chatId txt markdown net =
     (let url = ''https://api.telegram.org/bot'' @ TELEGRAM_BOT_TOKEN e @ ''/sendMessage'';
          msg = [(''chat_id'', chatId), (''text'', Some (JStr txt))]
                @ (if markdown then [(''parse_mode'', Some (JStr ''Markdown''))] else [])
      in if fetch_throws a then (net, Inl NetworkError)
         else (net @ [\<lparr>call_url = url, call_method = ''POST'',
                        call_headers = [(''Content-Type'', ''application/json'')],
                        call_body = JSON_stringify msg\<rparr>],
               Inr ()))"

text \<open>The two message texts, with their non-ASCII characters as UTF-8 bytes.\<close>

definition usage_text :: string where
  "usage_text =
     [CHR 0xE2, CHR 0x9D, CHR 0x8C] @ '' Uso incorrecto.'' @ [CHR 0x0A, CHR 0x0A]
     @ ''Debes usar: /start CODIGO'' @ [CHR 0x0A]
     @ ''El c'' @ [CHR 0xC3, CHR 0xB3] @ ''digo lo obtienes en la app LibrIA.''"

definition confirmation_text :: "string \<Rightarrow> string" where
  "confirmation_text firma =
     [CHR 0xE2, CHR 0x9C, CHR 0x85] @ '' Bot activado correctamente'' @ [CHR 0x0A, CHR 0x0A]
     @ ''Tu c'' @ [CHR 0xC3, CHR 0xB3] @ ''digo de verificaci'' @ [CHR 0xC3, CHR 0xB3] @ ''n:''
     @ [CHR 0x0A]
     @ [CHR 0x60] @ firma @ [CHR 0x60, CHR 0x0A, CHR 0x0A]
     @ ''Copia este c'' @ [CHR 0xC3, CHR 0xB3] @ ''digo y p'' @ [CHR 0xC3, CHR 0xA9]
     @ ''galo en la app LibrIA.'' @ [CHR 0x0A, CHR 0x0A]
     @ [CHR 0xE2, CHR 0x8F, CHR 0xB0] @ '' *El c'' @ [CHR 0xC3, CHR 0xB3]
     @ ''digo expira en 10 minutos.*''"

subsection \<open>\<^verbatim>\<open>handleTelegramWebhook\<close>\<close>

text \<open>
  The statements from the split of the text to the end of the \<^verbatim>\<open>try\<close> block, for a message
  whose text starts with \<^verbatim>\<open>/start\<close>.
\<close>

definition activate ::
  "ambient \<Rightarrow> json option \<Rightarrow> string \<Rightarrow> world \<Rightarrow> world \<times> (js_error + response)" where
  "activate a chatId txt w =
     (let e = bindings w;
          parts = split txt CHR '' ''
      in if length parts < 2 then
           (case sendTelegramMessage a e chatId usage_text False (network w) of
              (net, Inl err) \<Rightarrow> (w\<lparr>network := net\<rparr>, Inl err)
            | (net, Inr _) \<Rightarrow> (w\<lparr>network := net\<rparr>, Inr (Response ''OK'' 200)))
         else
           (let codigo = toUpperCase (parts ! 1)
            in case calcularFirma codigo (TELEGRAM_SECRET_KEY e) of
                 Inl err \<Rightarrow> (w, Inl err)
               | Inr firma \<Rightarrow>
                   if kv_put_throws a then (w, Inl KVError)
                   else
                     (let kv = kv_put (LIBRIA_KV e) (now a) (''codigo:'' @ codigo)
                                 (JSON_stringify
                                    [(''chat_id'', chatId),
                                     (''firma'', Some (JStr firma)),
                                     (''timestamp'', Some (JNum (int (now a))))])
                                 600;
                          w1 = w\<lparr>bindings := e\<lparr>LIBRIA_KV := kv\<rparr>\<rparr>
                      in case sendTelegramMessage a e chatId (confirmation_text firma) True
                                (network w1) of
                           (net, Inl err) \<Rightarrow> (w1\<lparr>network := net\<rparr>, Inl err)
                         | (net, Inr _) \<Rightarrow> (w1\<lparr>network := net\<rparr>, Inr (Response ''OK'' 200)))))"

text \<open>
  The \<^verbatim>\<open>try\<close> block. The guard \<^verbatim>\<open>!update.message?.text?.startsWith('/start')\<close> throws when
  \<^verbatim>\<open>update\<close> is \<^verbatim>\<open>null\<close> and when the text is neither a string nor \<^verbatim>\<open>null\<close> nor undefined
  (it has no method \<^verbatim>\<open>startsWith\<close>); \<^verbatim>\<open>message.chat.id\<close> throws when the message has no chat.
\<close>

definition webhook_try :: "ambient \<Rightarrow> request \<Rightarrow> world \<Rightarrow> world \<times> (js_error + response)" where
  "webhook_try a req w =
     (case request_json req of
        Inl err \<Rightarrow> (w, Inl err)
      | Inr update \<Rightarrow>
          (case get_prop update ''message'' of
             Inl err \<Rightarrow> (w, Inl err)
           | Inr message \<Rightarrow>
               (case opt_prop message ''text'' of
                  Inl err \<Rightarrow> (w, Inl err)
                | Inr None \<Rightarrow> (w, Inr (Response ''OK'' 200))
                | Inr (Some JNull) \<Rightarrow> (w, Inr (Response ''OK'' 200))
                | Inr (Some (JStr txt)) \<Rightarrow>
                    if \<not> startsWith txt ''/start'' then (w, Inr (Response ''OK'' 200))
                    else
                      (case read_prop message ''chat'' of
                         Inl err \<Rightarrow> (w, Inl err)
                       | Inr chat \<Rightarrow>
                           (case read_prop chat ''id'' of
                              Inl err \<Rightarrow> (w, Inl err)
                            | Inr chatId \<Rightarrow> activate a chatId txt w))
                | Inr (Some _) \<Rightarrow> (w, Inl TypeError))))"

text \<open>The \<^verbatim>\<open>catch\<close>: whatever was thrown, the response is 500 (the error is only logged).\<close>

definition handleTelegramWebhook ::
  "ambient \<Rightarrow> request \<Rightarrow> world \<Rightarrow> world \<times> (js_error + response)" where
  "handleTelegramWebhook a req w =
     (case webhook_try a req w of
        (w', Inl err) \<Rightarrow> (w', Inr (Response ''Error'' 500))
      | (w', Inr r) \<Rightarrow> (w', Inr r))"

subsection \<open>\<^verbatim>\<open>handleGetChatId\<close>\<close>

text \<open>
  There is no \<^verbatim>\<open>try\<close> here: an exception (a failed KV read, a stored text that is not
  JSON, a stored \<^verbatim>\<open>null\<close>) leaves the handler as \<open>Inl\<close>. The test \<^verbatim>\<open>!codigo\<close> holds for
  \<^verbatim>\<open>null\<close> and for the empty string, and so does \<^verbatim>\<open>!data\<close>.
\<close>

definition missing_param_body :: "(string \<times> json option) list" where
  "missing_param_body =
     [(''error'', Some (JStr (''Falta par'' @ [CHR 0xC3, CHR 0xA1] @ ''metro: codigo'')))]"

definition not_found_body :: "(string \<times> json option) list" where
  "not_found_body =
     [(''error'', Some (JStr (''C'' @ [CHR 0xC3, CHR 0xB3] @ ''digo no encontrado'')))]"

definition handleGetChatId ::
  "ambient \<Rightarrow> request \<Rightarrow> world \<Rightarrow> world \<times> (js_error + response)" where
  "handleGetChatId a req w =
     (case searchParams_get req ''codigo'' of
        None \<Rightarrow> (w, Inr (Response_json missing_param_body 400))
      | Some codigo \<Rightarrow>
          if codigo = [] then (w, Inr (Response_json missing_param_body 400))
          else if kv_get_throws a then (w, Inl KVError)
          else
            (case kv_get (LIBRIA_KV (bindings w)) (now a) (''codigo:'' @ toUpperCase codigo) of
               None \<Rightarrow> (w, Inr (Response_json not_found_body 404))
             | Some data \<Rightarrow>
                 if data = RawText [] then (w, Inr (Response_json not_found_body 404))
                 else
                   (case JSON_parse data of
                      Inl err \<Rightarrow> (w, Inl err)
                    | Inr parsed \<Rightarrow>
                        (case get_prop parsed ''chat_id'' of
                           Inl err \<Rightarrow> (w, Inl err)
                         | Inr chat_id \<Rightarrow>
                             (case get_prop parsed ''timestamp'' of
                                Inl err \<Rightarrow> (w, Inl err)
                              | Inr timestamp \<Rightarrow>
                                  (w, Inr (Response_json
                                             [(''chat_id'', chat_id), (''timestamp'', timestamp)]
                                             200)))))))"

subsection \<open>The router (\<^verbatim>\<open>fetch\<close>)\<close>

definition worker_fetch :: "ambient \<Rightarrow> request \<Rightarrow> world \<Rightarrow> world \<times> (js_error + response)" where
  "worker_fetch a req w =
     (if pathname req = ''/webhook'' \<and> http_method req = ''POST'' then handleTelegramWebhook a req w
      else if pathname req = ''/get-chat-id'' \<and> http_method req = ''GET'' then handleGetChatId a req w
      else (w, Inr (Response ''LibrIA Telegram Bot - OK'' 200)))"

subsection \<open>The vocabulary of the properties\<close>

text \<open>
  The verification code as the specification words it: the HMAC-SHA256 of the uppercased
  activation code under the secret, cut to its first 4 bytes, each byte as two uppercase
  hexadecimal digits.
\<close>

definition upper_hex_digit :: "nat \<Rightarrow> char" where
  "upper_hex_digit d = ''0123456789ABCDEF'' ! d"

definition upper_hex_byte :: "byte \<Rightarrow> string" where
  "upper_hex_byte b = [upper_hex_digit (unat b div 16), upper_hex_digit (unat b mod 16)]"

definition truncated_hmac_hex :: "string \<Rightarrow> string \<Rightarrow> string" where
  "truncated_hmac_hex secret msg =
     concat (map upper_hex_byte (take 4 (hmac_sha256 (encode secret) (encode msg))))"

definition verification_code :: "string \<Rightarrow> string \<Rightarrow> string" where
  "verification_code secret activation_code =
     truncated_hmac_hex secret (toUpperCase activation_code)"

text \<open>
  The text of the message of an inbound update, when the body is a JSON object whose
  \<^verbatim>\<open>message\<close> is an object whose \<^verbatim>\<open>text\<close> is a string.
\<close>

definition message_text :: "request \<Rightarrow> string option" where
  "message_text req =
     (case body_json req of
        Some (JObj ms) \<Rightarrow>
          (case map_of ms ''message'' of
             Some (JObj mm) \<Rightarrow> (case map_of mm ''text'' of Some (JStr t) \<Rightarrow> Some t | _ \<Rightarrow> None)
           | _ \<Rightarrow> None)
      | _ \<Rightarrow> None)"



text \<open>The identifier of the chat of the message, when the message has a chat object with an id.\<close>

definition message_chat_id :: "request \<Rightarrow> json option" where
  "message_chat_id req =
     (case body_json req of
        Some (JObj ms) \<Rightarrow>
          (case map_of ms ''message'' of
             Some (JObj mm) \<Rightarrow>
               (case map_of mm ''chat'' of Some (JObj cm) \<Rightarrow> map_of cm ''id'' | _ \<Rightarrow> None)
           | _ \<Rightarrow> None)
      | _ \<Rightarrow> None)"

text \<open>The argument that follows the command: the second part of the text split at spaces.\<close>

definition activation_code :: "string \<Rightarrow> string option" where
  "activation_code txt = (case split txt CHR '' '' of p # c # ps \<Rightarrow> Some c | _ \<Rightarrow> None)"

text \<open>
  A valid issuance event: a message from the chat \<open>cid\<close> whose text is the command followed
  by the non-empty activation code \<open>c\<close>.
\<close>

definition issuance_event :: "request \<Rightarrow> json \<Rightarrow> string \<Rightarrow> bool" where
  "issuance_event req cid c =
     (case message_text req of
        None \<Rightarrow> False
      | Some txt \<Rightarrow>
          startsWith txt ''/start'' \<and> activation_code txt = Some c \<and> c \<noteq> []
          \<and> message_chat_id req = Some cid)"

text \<open>The record the webhook stores for such an event, and the key it stores it under.\<close>

definition verification_record :: "json \<Rightarrow> string \<Rightarrow> nat \<Rightarrow> payload" where
  "verification_record cid firma t =
     JsonText (JObj [(''chat_id'', cid), (''firma'', JStr firma), (''timestamp'', JNum (int t))])"

definition record_key :: "string \<Rightarrow> string" where
  "record_key c = ''codigo:'' @ toUpperCase c"

text \<open>The store and the calls made, read off a world.\<close>

definition store :: "world \<Rightarrow> kv_namespace" where
  "store w = LIBRIA_KV (bindings w)"

text \<open>
  A store in which every value is the text of a JSON object, as every value the webhook
  writes is.
\<close>

definition records_only :: "kv_namespace \<Rightarrow> bool" where
  "records_only ns = (\<forall>key v t. entries ns key = Some (v, t) \<longrightarrow> (\<exists>fs. v = JsonText (JObj fs)))"

text \<open>Concrete inputs, for the worked instances of the theorems.\<close>

definition example_world :: "bool \<Rightarrow> world" where
  "example_world enforced =
     \<lparr>bindings = \<lparr>TELEGRAM_BOT_TOKEN = ''123:TOKEN'', TELEGRAM_SECRET_KEY = ''s3cr3t'',
                  LIBRIA_KV = \<lparr>entries = Map.empty, expiry_enforced = enforced\<rparr>\<rparr>,
      network = []\<rparr>"

definition at_time :: "nat \<Rightarrow> ambient" where
  "at_time t = \<lparr>now = t, kv_get_throws = False, kv_put_throws = False, fetch_throws = False\<rparr>"

definition webhook_request :: "json option \<Rightarrow> request" where
  "webhook_request b =
     \<lparr>http_method = ''POST'', pathname = ''/webhook'', searchParams = [], body_json = b\<rparr>"

definition start_update :: "int \<Rightarrow> string \<Rightarrow> json" where
  "start_update n txt =
     JObj [(''update_id'', JNum 1),
           (''message'', JObj [(''chat'', JObj [(''id'', JNum n)]), (''text'', JStr txt)])]"

definition lookup_request :: "(string \<times> string) list \<Rightarrow> request" where
  "lookup_request ps =
     \<lparr>http_method = ''GET'', pathname = ''/get-chat-id'', searchParams = ps, body_json = None\<rparr>"

definition world_with_record :: "string \<Rightarrow> world" where
  "world_with_record firma =
     \<lparr>bindings = \<lparr>TELEGRAM_BOT_TOKEN = ''123:TOKEN'', TELEGRAM_SECRET_KEY = ''s3cr3t'',
                  LIBRIA_KV =
                    \<lparr>entries = [''codigo:ABC123'' \<mapsto> (verification_record (JNum 42) firma 5, 600005)],
                     expiry_enforced = True\<rparr>\<rparr>,
      network = []\<rparr>"

section \<open>Properties\<close>

subsection \<open>The derived code\<close>



lemma unat_byte_less: "unat (b :: byte) < 256"
  using unsigned_less [of b, where ?'a = nat] by simp

lemma take_concat_pairs:
  assumes "\<And>x. length (f x) = 2"
  shows "take (2 * n) (concat (map f xs)) = concat (map f (take n xs))"
  using assms
proof (induction xs arbitrary: n)
  case Nil
  then show ?case by simp
next
  case (Cons x xs)
  show ?case
  proof (cases n)
    case 0
    then show ?thesis by simp
  next
    case (Suc m)
    with Cons show ?thesis by simp
  qed
qed

lemma toString16_byte:
  assumes "n < 256"
  shows "padStart 2 CHR ''0'' (toString16 n) = [hex_digit (n div 16), hex_digit (n mod 16)]"
proof (cases "n < 16")
  case True
  then show ?thesis by (simp add: toString16.simps padStart_def hex_digit_def)
next
  case False
  with assms have "n div 16 < 16" by simp
  then have "toString16 (n div 16) = [hex_digit (n div 16)]"
    by (simp add: toString16.simps)
  with False show ?thesis
    by (subst toString16.simps) (simp add: padStart_def)
qed

lemma upper_char_hex_digit:
  assumes "d < 16"
  shows "upper_char (hex_digit d) = upper_hex_digit d"
proof -
  have "\<forall>d \<in> set [0..<16]. upper_char (hex_digit d) = upper_hex_digit d"
    unfolding upper_char_def hex_digit_def upper_hex_digit_def Let_def by code_simp
  with assms show ?thesis by simp
qed


lemma upper_hex_byte_eq:
  "map upper_char (padStart 2 CHR ''0'' (toString16 (unat (b :: byte)))) = upper_hex_byte b"
proof -
  have "unat b < 256" by (rule unat_byte_less)
  moreover from this have "unat b div 16 < 16" by simp
  moreover have "unat b mod 16 < 16" by simp
  ultimately show ?thesis
    by (simp add: toString16_byte upper_hex_byte_def upper_char_hex_digit)
qed

lemma calcularFirma_eq:
  "calcularFirma codigo secret =
     (if secret = [] then Inl DataError else Inr (truncated_hmac_hex secret codigo))"
proof -
  let ?f = "\<lambda>b :: byte. padStart 2 CHR ''0'' (toString16 (unat b))"
  let ?sig = "hmac_sha256 (encode secret) (encode codigo)"
  have len: "length (?f b) = 2" for b
    using unat_byte_less [of b] by (simp add: toString16_byte)
  have "take (2 * 4) (concat (map ?f ?sig)) = concat (map ?f (take 4 ?sig))"
    by (rule take_concat_pairs) (rule len)
  then have "toUpperCase (substring 0 8 (concat (map (\<lambda>n. padStart 2 CHR ''0'' (toString16 n))
                (map unat ?sig))))
      = concat (map upper_hex_byte (take 4 ?sig))"
    by (simp add: substring_def toUpperCase_def map_concat comp_def upper_hex_byte_eq)
  then show ?thesis
    by (simp add: calcularFirma_def importKey_def sign_def encode_def truncated_hmac_hex_def Let_def)
qed



subsection \<open>The shape of an issuance event\<close>

lemma activation_code_parts:
  assumes "activation_code txt = Some c"
  shows "\<not> length (split txt CHR '' '') < 2" and "split txt CHR '' '' ! 1 = c"
  using assms by (auto simp: activation_code_def split: list.splits)

lemma issuance_eventD:
  assumes "issuance_event req cid c"
  obtains msg ms mm cm where
    "body_json req = Some (JObj ms)" "map_of ms ''message'' = Some (JObj mm)"
    "map_of mm ''text'' = Some (JStr msg)" "map_of mm ''chat'' = Some (JObj cm)"
    "map_of cm ''id'' = Some cid"
    "startsWith msg ''/start''" "activation_code msg = Some c" "c \<noteq> []"
  using assms
  by (auto simp: issuance_event_def message_text_def message_chat_id_def
      split: option.splits json.splits)

lemma webhook_try_issuance:
  assumes "issuance_event req cid c"
  obtains msg where "activation_code msg = Some c"
    and "webhook_try a req w = activate a (Some cid) msg w"
proof -
  from assms obtain msg ms mm cm where *:
    "body_json req = Some (JObj ms)" "map_of ms ''message'' = Some (JObj mm)"
    "map_of mm ''text'' = Some (JStr msg)" "map_of mm ''chat'' = Some (JObj cm)"
    "map_of cm ''id'' = Some cid"
    "startsWith msg ''/start''" "activation_code msg = Some c"
    by (rule issuance_eventD)
  then have "webhook_try a req w = activate a (Some cid) msg w"
    by (simp add: webhook_try_def request_json_def)
  with * show ?thesis using that by blast
qed

subsection \<open>The store after an issuance\<close>

lemma stringify_record:
  "JSON_stringify [(''chat_id'', Some cid), (''firma'', Some (JStr f)),
                   (''timestamp'', Some (JNum (int t)))] = verification_record cid f t"
  by (simp add: JSON_stringify_def verification_record_def)

lemma kv_get_put_same:
  "kv_get (kv_put ns t key v ttl) t' key =
     (if expiry_enforced ns \<and> t + 1000 * ttl \<le> t' then None else Some v)"
  by (simp add: kv_get_def kv_put_def)

lemma activate_store:
  assumes "activation_code msg = Some c" and "TELEGRAM_SECRET_KEY (bindings w) \<noteq> []"
    and "\<not> kv_put_throws a"
  shows "store (fst (activate a (Some cid) msg w)) =
           kv_put (store w) (now a) (record_key c)
             (verification_record cid (verification_code (TELEGRAM_SECRET_KEY (bindings w)) c)
                (now a)) 600"
  using assms activation_code_parts [OF assms(1)]
  by (simp add: activate_def Let_def calcularFirma_eq sendTelegramMessage_def store_def
      record_key_def verification_code_def stringify_record)

lemma webhook_store_issuance:
  assumes "issuance_event req cid c" and "TELEGRAM_SECRET_KEY (bindings w) \<noteq> []"
    and "\<not> kv_put_throws a"
  shows "store (fst (handleTelegramWebhook a req w)) =
           kv_put (store w) (now a) (record_key c)
             (verification_record cid (verification_code (TELEGRAM_SECRET_KEY (bindings w)) c)
                (now a)) 600"
proof -
  from assms(1) obtain msg where msg: "activation_code msg = Some c"
    and body: "webhook_try a req w = activate a (Some cid) msg w"
    by (rule webhook_try_issuance)
  have "fst (handleTelegramWebhook a req w) = fst (activate a (Some cid) msg w)"
    by (simp add: handleTelegramWebhook_def body split: prod.splits sum.splits)
  with activate_store [OF msg assms(2,3)] show ?thesis by simp
qed

lemma lookup_found:
  assumes "searchParams_get q ''codigo'' = Some c" and "c \<noteq> []" and "\<not> kv_get_throws a"
    and "kv_get (store w) (now a) (record_key c) = Some (JsonText (JObj fs))"
  shows "handleGetChatId a q w =
           (w, Inr (Response_json [(''chat_id'', map_of fs ''chat_id''),
                                   (''timestamp'', map_of fs ''timestamp'')] 200))"
  using assms by (simp add: handleGetChatId_def store_def record_key_def)

lemma lookup_absent:
  assumes "searchParams_get q ''codigo'' = Some c" and "c \<noteq> []" and "\<not> kv_get_throws a"
    and "kv_get (store w) (now a) (record_key c) = None"
  shows "handleGetChatId a q w = (w, Inr (Response_json not_found_body 404))"
  using assms by (simp add: handleGetChatId_def store_def record_key_def)

lemma lookup_missing_param:
  assumes "searchParams_get q ''codigo'' = None \<or> searchParams_get q ''codigo'' = Some []"
  shows "handleGetChatId a q w = (w, Inr (Response_json missing_param_body 400))"
  using assms by (auto simp: handleGetChatId_def)

lemma lookup_after_issuance:
  assumes "issuance_event req cid c" and "TELEGRAM_SECRET_KEY (bindings w) \<noteq> []"
    and "\<not> kv_put_throws a"
    and "searchParams_get q ''codigo'' = Some c'" and "toUpperCase c' = toUpperCase c"
    and "\<not> kv_get_throws a'" and "now a' < now a + 600000"
  shows "snd (handleGetChatId a' q (fst (handleTelegramWebhook a req w))) =
           Inr \<lparr>status = 200,
                body = JsonText (JObj [(''chat_id'', cid), (''timestamp'', JNum (int (now a)))])\<rparr>"
proof -
  let ?w = "fst (handleTelegramWebhook a req w)"
  from assms(1) have "c \<noteq> []"
    by (auto simp: issuance_event_def split: option.splits)
  with assms(5) have ne: "c' \<noteq> []"
    by (auto simp: toUpperCase_def)
  from assms(5) have key: "record_key c' = record_key c"
    by (simp add: record_key_def)
  have "kv_get (store ?w) (now a') (record_key c') =
          Some (verification_record cid (verification_code (TELEGRAM_SECRET_KEY (bindings w)) c)
                  (now a))"
    using assms(7) by (simp add: webhook_store_issuance [OF assms(1-3)] key kv_get_put_same)
  then have "handleGetChatId a' q ?w =
      (?w, Inr (Response_json
         [(''chat_id'', map_of [(''chat_id'', cid),
              (''firma'', JStr (verification_code (TELEGRAM_SECRET_KEY (bindings w)) c)),
              (''timestamp'', JNum (int (now a)))] ''chat_id''),
          (''timestamp'', map_of [(''chat_id'', cid),
              (''firma'', JStr (verification_code (TELEGRAM_SECRET_KEY (bindings w)) c)),
              (''timestamp'', JNum (int (now a)))] ''timestamp'')] 200))"
    unfolding verification_record_def by (rule lookup_found [OF assms(4) ne assms(6)])
  then show ?thesis
    by (simp add: Response_json_def JSON_stringify_def)
qed

subsection \<open>Lookup after issuance, on worked inputs\<close>

lemma example_hmac: "truncated_hmac_hex ''s3cr3t'' ''ABC123'' = ''F5C79495''"
  by code_simp

lemma example_hmac_empty: "truncated_hmac_hex ''s3cr3t'' [] = ''3C81CC94''"
  by code_simp

lemma example_code: "verification_code ''s3cr3t'' ''abc123'' = ''F5C79495''"
proof -
  have "toUpperCase ''abc123'' = ''ABC123''"
    by code_simp
  then show ?thesis
    by (simp only: verification_code_def example_hmac)
qed

lemma example_event:
  "issuance_event (webhook_request (Some (start_update 42 ''/start abc123''))) (JNum 42) ''abc123''"
  by (simp add: issuance_event_def message_text_def message_chat_id_def webhook_request_def
      start_update_def startsWith_def activation_code_def)

lemma example_secret: "TELEGRAM_SECRET_KEY (bindings (example_world enforced)) = ''s3cr3t''"
  by (simp add: example_world_def)

lemma example_store:
  "store (fst (handleTelegramWebhook (at_time 5)
                 (webhook_request (Some (start_update 42 ''/start abc123'')))
                 (example_world enforced))) =
     kv_put (store (example_world enforced)) 5 ''codigo:ABC123''
       (verification_record (JNum 42) ''F5C79495'' 5) 600"
proof -
  have key: "record_key ''abc123'' = ''codigo:ABC123''"
    by code_simp
  have "TELEGRAM_SECRET_KEY (bindings (example_world enforced)) \<noteq> []"
    by (simp add: example_secret)
  moreover have "\<not> kv_put_throws (at_time 5)"
    by (simp add: at_time_def)
  ultimately show ?thesis
    using webhook_store_issuance [OF example_event, of "example_world enforced" "at_time 5"]
    by (simp add: example_secret example_code key at_time_def)
qed

text \<open>
  Claim C1, as stated: after a valid issuance, a lookup with the HMAC-derived verification
  code returns the chat identifier. It fails: the record is stored under the activation
  code, so the lookup with the verification code finds nothing.
\<close>

theorem lookup_by_verification_code_counterexample:
  "verification_code ''s3cr3t'' ''abc123'' = ''F5C79495'' \<and>
   snd (handleGetChatId (at_time 6) (lookup_request [(''codigo'', ''F5C79495'')])
          (fst (handleTelegramWebhook (at_time 5)
                  (webhook_request (Some (start_update 42 ''/start abc123'')))
                  (example_world True))))
     = Inr \<lparr>status = 404, body = JsonText (JObj [(''error'', JStr
               (''C'' @ [CHR 0xC3, CHR 0xB3] @ ''digo no encontrado''))])\<rparr>"
proof -
  let ?w = "fst (handleTelegramWebhook (at_time 5)
                   (webhook_request (Some (start_update 42 ''/start abc123'')))
                   (example_world True))"
  have key: "record_key ''F5C79495'' = ''codigo:F5C79495''"
    by code_simp
  have "kv_get (store ?w) (now (at_time 6)) (record_key ''F5C79495'') = None"
    unfolding example_store key
    by (simp add: kv_get_def kv_put_def store_def example_world_def)
  then have "handleGetChatId (at_time 6) (lookup_request [(''codigo'', ''F5C79495'')]) ?w =
      (?w, Inr (Response_json not_found_body 404))"
    by (intro lookup_absent) (simp_all add: searchParams_get_def lookup_request_def at_time_def)
  then show ?thesis
    by (simp add: example_code Response_json_def not_found_body_def JSON_stringify_def)
qed

text \<open>
  Claim C1, amended: after a valid issuance, with the secret set and the store write
  succeeding, a lookup with the activation code of the event, made before the 600 seconds
  have passed, answers 200 with the chat identifier of the event.
\<close>

theorem lookup_by_activation_code:
  assumes "issuance_event req cid c" and "TELEGRAM_SECRET_KEY (bindings w) \<noteq> []"
    and "\<not> kv_put_throws a"
    and "searchParams_get q ''codigo'' = Some c"
    and "\<not> kv_get_throws a'" and "now a' < now a + 600000"
  shows "\<exists>ts. snd (handleGetChatId a' q (fst (handleTelegramWebhook a req w))) =
           Inr \<lparr>status = 200, body = JsonText (JObj [(''chat_id'', cid), (''timestamp'', ts)])\<rparr>"
  using lookup_after_issuance [OF assms(1-4) refl assms(5,6)] by simp

theorem lookup_by_activation_code_witness:
  "issuance_event (webhook_request (Some (start_update 42 ''/start abc123''))) (JNum 42) ''abc123''
   \<and> (\<exists>ts. snd (handleGetChatId (at_time 6) (lookup_request [(''codigo'', ''abc123'')])
               (fst (handleTelegramWebhook (at_time 5)
                  (webhook_request (Some (start_update 42 ''/start abc123'')))
                  (example_world True))))
        = Inr \<lparr>status = 200,
                body = JsonText (JObj [(''chat_id'', JNum 42), (''timestamp'', ts)])\<rparr>)"
proof -
  have "TELEGRAM_SECRET_KEY (bindings (example_world True)) \<noteq> []"
    by (simp add: example_secret)
  moreover have "\<not> kv_put_throws (at_time 5)" "\<not> kv_get_throws (at_time 6)"
    "now (at_time 6) < now (at_time 5) + 600000"
    by (simp_all add: at_time_def)
  moreover have "searchParams_get (lookup_request [(''codigo'', ''abc123'')]) ''codigo''
      = Some ''abc123''"
    by (simp add: searchParams_get_def lookup_request_def)
  ultimately show ?thesis
    using lookup_by_activation_code [OF example_event, of "example_world True" "at_time 5"
        "lookup_request [(''codigo'', ''abc123'')]" "at_time 6"] example_event
    by simp
qed



subsection \<open>The three answers of the lookup\<close>


lemma example_lookup_param:
  "searchParams_get (lookup_request [(''codigo'', c)]) ''codigo'' = Some c"
  by (simp add: searchParams_get_def lookup_request_def)



subsection \<open>The key of the record and its expiry\<close>



text \<open>
  Claim C5, as stated: after the 600 seconds the record is treated as absent whatever the
  store guarantees. It fails on a store that still returns a key past its expiration: the
  handler has no expiry check of its own and answers 200, while the same lookup for a
  code never issued answers 404.
\<close>

theorem expired_record_counterexample:
  "\<not> expiry_enforced (LIBRIA_KV (bindings (example_world False)))
   \<and> snd (handleGetChatId (at_time 700000) (lookup_request [(''codigo'', ''abc123'')])
            (fst (handleTelegramWebhook (at_time 5)
                    (webhook_request (Some (start_update 42 ''/start abc123'')))
                    (example_world False))))
      = Inr \<lparr>status = 200,
             body = JsonText (JObj [(''chat_id'', JNum 42), (''timestamp'', JNum 5)])\<rparr>
   \<and> snd (handleGetChatId (at_time 700000) (lookup_request [(''codigo'', ''abc123'')])
            (example_world False))
      = Inr \<lparr>status = 404, body = JsonText (JObj [(''error'', JStr
               (''C'' @ [CHR 0xC3, CHR 0xB3] @ ''digo no encontrado''))])\<rparr>"
proof -
  let ?w = "fst (handleTelegramWebhook (at_time 5)
                   (webhook_request (Some (start_update 42 ''/start abc123'')))
                   (example_world False))"
  let ?q = "lookup_request [(''codigo'', ''abc123'')]"
  have key: "record_key ''abc123'' = ''codigo:ABC123''" by code_simp
  have a: "\<not> kv_get_throws (at_time 700000)"
    by (simp add: at_time_def)
  have "kv_get (store ?w) (now (at_time 700000)) (record_key ''abc123'')
      = Some (JsonText (JObj [(''chat_id'', JNum 42), (''firma'', JStr ''F5C79495''),
                              (''timestamp'', JNum 5)]))"
    unfolding example_store key
    by (simp add: kv_get_put_same store_def example_world_def verification_record_def)
  from lookup_found [OF example_lookup_param _ a this]
  have one: "snd (handleGetChatId (at_time 700000) ?q ?w)
      = Inr \<lparr>status = 200,
             body = JsonText (JObj [(''chat_id'', JNum 42), (''timestamp'', JNum 5)])\<rparr>"
    by (simp add: Response_json_def JSON_stringify_def)
  have "kv_get (store (example_world False)) (now (at_time 700000)) (record_key ''abc123'') = None"
    by (simp add: kv_get_def store_def example_world_def)
  from lookup_absent [OF example_lookup_param _ a this]
  have two: "snd (handleGetChatId (at_time 700000) ?q (example_world False))
      = Inr \<lparr>status = 404, body = JsonText (JObj [(''error'', JStr
               (''C'' @ [CHR 0xC3, CHR 0xB3] @ ''digo no encontrado''))])\<rparr>"
    by (simp add: Response_json_def JSON_stringify_def not_found_body_def)
  show ?thesis
    unfolding one two by (simp add: example_world_def)
qed

text \<open>
  Claim C5, amended: every record is stored with an expiration 600 seconds after the time
  of issuance, and on a store that no longer returns a key once its expiration has passed,
  a lookup made after the 600 seconds answers 404, as the lookup of a code that was never
  issued does. The handler has no expiry check of its own.
\<close>

theorem expired_record_not_found:
  assumes "issuance_event req cid c" and "TELEGRAM_SECRET_KEY (bindings w) \<noteq> []"
    and "\<not> kv_put_throws a"
    and "expiry_enforced (LIBRIA_KV (bindings w))"
    and "searchParams_get q ''codigo'' = Some c'" and "toUpperCase c' = toUpperCase c"
    and "\<not> kv_get_throws a'" and "now a + 1000 * 600 \<le> now a'"
  shows "(\<exists>v. entries (LIBRIA_KV (bindings (fst (handleTelegramWebhook a req w))))
                 (''codigo:'' @ toUpperCase c) = Some (v, now a + 1000 * 600))
       \<and> snd (handleGetChatId a' q (fst (handleTelegramWebhook a req w)))
           = Inr (Response_json not_found_body 404)
       \<and> (entries (LIBRIA_KV (bindings w)) (''codigo:'' @ toUpperCase c) = None
            \<longrightarrow> snd (handleGetChatId a' q w) = Inr (Response_json not_found_body 404))"
proof -
  let ?w = "fst (handleTelegramWebhook a req w)"
  from assms(1) have "c \<noteq> []"
    by (auto simp: issuance_event_def split: option.splits)
  with assms(6) have ne: "c' \<noteq> []"
    by (auto simp: toUpperCase_def)
  from assms(6) have key: "record_key c' = record_key c"
    by (simp add: record_key_def)
  note st = webhook_store_issuance [OF assms(1-3)]
  have one: "\<exists>v. entries (LIBRIA_KV (bindings ?w)) (''codigo:'' @ toUpperCase c)
               = Some (v, now a + 1000 * 600)"
    using st by (simp add: store_def record_key_def kv_put_def)
  have "kv_get (store ?w) (now a') (record_key c') = None"
    using assms(4,8) by (simp add: st key kv_get_put_same) (simp add: store_def)
  from lookup_absent [OF assms(5) ne assms(7) this]
  have two: "snd (handleGetChatId a' q ?w) = Inr (Response_json not_found_body 404)"
    by simp
  have three: "snd (handleGetChatId a' q w) = Inr (Response_json not_found_body 404)"
    if "entries (LIBRIA_KV (bindings w)) (''codigo:'' @ toUpperCase c) = None"
  proof -
    from that have "kv_get (store w) (now a') (record_key c') = None"
      by (simp add: key) (simp add: kv_get_def store_def record_key_def)
    from lookup_absent [OF assms(5) ne assms(7) this] show ?thesis by simp
  qed
  from one two three show ?thesis by blast
qed

theorem expired_record_not_found_witness:
  "issuance_event (webhook_request (Some (start_update 42 ''/start abc123''))) (JNum 42) ''abc123''
   \<and> expiry_enforced (LIBRIA_KV (bindings (example_world True)))
   \<and> snd (handleGetChatId (at_time 600005) (lookup_request [(''codigo'', ''abc123'')])
            (fst (handleTelegramWebhook (at_time 5)
                    (webhook_request (Some (start_update 42 ''/start abc123'')))
                    (example_world True))))
      = Inr (Response_json not_found_body 404)
   \<and> snd (handleGetChatId (at_time 600005) (lookup_request [(''codigo'', ''abc123'')])
            (example_world True))
      = Inr (Response_json not_found_body 404)"
proof -
  have env: "TELEGRAM_SECRET_KEY (bindings (example_world True)) \<noteq> []"
    "\<not> kv_put_throws (at_time 5)" "expiry_enforced (LIBRIA_KV (bindings (example_world True)))"
    by (simp_all add: example_world_def at_time_def)
  have look: "\<not> kv_get_throws (at_time 600005)" "now (at_time 5) + 1000 * 600 \<le> now (at_time 600005)"
    by (simp_all add: at_time_def)
  have none: "entries (LIBRIA_KV (bindings (example_world True)))
      (''codigo:'' @ toUpperCase ''abc123'') = None"
    by (simp add: example_world_def)
  from expired_record_not_found [OF example_event env example_lookup_param refl look] none
  show ?thesis
    using example_event env(3) by simp
qed

subsection \<open>The lookup reads only\<close>

lemma lookup_frame: "fst (handleGetChatId a q w) = w"
  by (simp add: handleGetChatId_def split: option.splits sum.splits)

text \<open>
  Claim C7: the lookup leaves the state as it was, whatever the state and the request; and
  a lookup repeated while the record is live gives the same answer as the first one.
\<close>

theorem lookup_read_only:
  "fst (handleGetChatId a q w) = w
   \<and> (searchParams_get q ''codigo'' = Some c
       \<and> entries (LIBRIA_KV (bindings w)) (''codigo:'' @ toUpperCase c) = Some (v, expires)
       \<and> now a < expires \<and> now a' < expires \<and> kv_get_throws a' = kv_get_throws a
      \<longrightarrow> handleGetChatId a' q (fst (handleGetChatId a q w)) = handleGetChatId a q w)"
proof (intro conjI impI)
  show "fst (handleGetChatId a q w) = w" by (rule lookup_frame)
next
  assume h: "searchParams_get q ''codigo'' = Some c
       \<and> entries (LIBRIA_KV (bindings w)) (''codigo:'' @ toUpperCase c) = Some (v, expires)
       \<and> now a < expires \<and> now a' < expires \<and> kv_get_throws a' = kv_get_throws a"
  then have "kv_get (LIBRIA_KV (bindings w)) (now a') (''codigo:'' @ toUpperCase c) = Some v"
    and "kv_get (LIBRIA_KV (bindings w)) (now a) (''codigo:'' @ toUpperCase c) = Some v"
    by (simp_all add: kv_get_def)
  with h have "handleGetChatId a' q w = handleGetChatId a q w"
    by (simp add: handleGetChatId_def)
  then show "handleGetChatId a' q (fst (handleGetChatId a q w)) = handleGetChatId a q w"
    by (simp add: lookup_frame)
qed

lemma example_record_get:
  "kv_get (LIBRIA_KV (bindings (world_with_record f))) t ''codigo:ABC123''
     = (if 600005 \<le> t then None else Some (verification_record (JNum 42) f 5))"
  by (simp add: kv_get_def world_with_record_def)

theorem lookup_read_only_witness:
  "fst (handleGetChatId (at_time 6) (lookup_request [(''codigo'', ''abc123'')])
          (world_with_record ''F5C79495'')) = world_with_record ''F5C79495''
   \<and> handleGetChatId (at_time 7) (lookup_request [(''codigo'', ''abc123'')])
        (fst (handleGetChatId (at_time 6) (lookup_request [(''codigo'', ''abc123'')])
                (world_with_record ''F5C79495'')))
      = handleGetChatId (at_time 6) (lookup_request [(''codigo'', ''abc123'')])
          (world_with_record ''F5C79495'')"
proof -
  have up: "toUpperCase ''abc123'' = ''ABC123''" by code_simp
  have "searchParams_get (lookup_request [(''codigo'', ''abc123'')]) ''codigo'' = Some ''abc123''
      \<and> entries (LIBRIA_KV (bindings (world_with_record ''F5C79495'')))
          (''codigo:'' @ toUpperCase ''abc123'')
        = Some (verification_record (JNum 42) ''F5C79495'' 5, 600005)
      \<and> now (at_time 6) < 600005 \<and> now (at_time 7) < 600005
      \<and> kv_get_throws (at_time 7) = kv_get_throws (at_time 6)"
    unfolding up by (simp add: world_with_record_def at_time_def example_lookup_param)
  with lookup_read_only [where a = "at_time 6" and a' = "at_time 7"
        and q = "lookup_request [(''codigo'', ''abc123'')]" and w = "world_with_record ''F5C79495''"
        and c = "''abc123''" and v = "verification_record (JNum 42) ''F5C79495'' 5"
        and expires = 600005]
  show ?thesis by blast
qed

text \<open>
  Claim C10: the answer of a lookup does not depend on the \<^verbatim>\<open>firma\<close> stored in the record:
  over two stores whose records for the code agree on every field but \<^verbatim>\<open>firma\<close> the answer
  is the same, and the body of a 200 answer has no field besides \<^verbatim>\<open>chat_id\<close> and
  \<^verbatim>\<open>timestamp\<close>.
\<close>

theorem lookup_independent_of_firma:
  assumes "searchParams_get q ''codigo'' = Some c"
    and "kv_get (LIBRIA_KV (bindings w1)) (now a) (''codigo:'' @ toUpperCase c)
           = Some (JsonText (JObj fs1))"
    and "kv_get (LIBRIA_KV (bindings w2)) (now a) (''codigo:'' @ toUpperCase c)
           = Some (JsonText (JObj fs2))"
    and "\<forall>k. k \<noteq> ''firma'' \<longrightarrow> map_of fs1 k = map_of fs2 k"
  shows "snd (handleGetChatId a q w1) = snd (handleGetChatId a q w2)
       \<and> (c \<noteq> [] \<and> \<not> kv_get_throws a
            \<longrightarrow> (\<exists>ms. snd (handleGetChatId a q w1) = Inr \<lparr>status = 200, body = JsonText (JObj ms)\<rparr>
                      \<and> set (map fst ms) \<subseteq> {''chat_id'', ''timestamp''}))"
proof -
  from assms(4) have same: "map_of fs1 ''chat_id'' = map_of fs2 ''chat_id''"
    "map_of fs1 ''timestamp'' = map_of fs2 ''timestamp''"
    by simp_all
  have one: "snd (handleGetChatId a q w1) = snd (handleGetChatId a q w2)"
    using assms(1-3) same by (simp add: handleGetChatId_def)
  have two: "\<exists>ms. snd (handleGetChatId a q w1) = Inr \<lparr>status = 200, body = JsonText (JObj ms)\<rparr>
                 \<and> set (map fst ms) \<subseteq> {''chat_id'', ''timestamp''}"
    if "c \<noteq> []" "\<not> kv_get_throws a"
    using that assms(1,2)
    by (auto simp: handleGetChatId_def Response_json_def JSON_stringify_def split: option.splits)
  from one two show ?thesis by blast
qed

theorem lookup_independent_of_firma_witness:
  "snd (handleGetChatId (at_time 6) (lookup_request [(''codigo'', ''abc123'')])
          (world_with_record ''F5C79495''))
     = snd (handleGetChatId (at_time 6) (lookup_request [(''codigo'', ''abc123'')])
          (world_with_record ''00000000''))
   \<and> (\<exists>ms. snd (handleGetChatId (at_time 6) (lookup_request [(''codigo'', ''abc123'')])
                 (world_with_record ''F5C79495''))
            = Inr \<lparr>status = 200, body = JsonText (JObj ms)\<rparr>
          \<and> set (map fst ms) \<subseteq> {''chat_id'', ''timestamp''})"
proof -
  have up: "toUpperCase ''abc123'' = ''ABC123''" by code_simp
  have get: "kv_get (LIBRIA_KV (bindings (world_with_record f))) (now (at_time 6))
          (''codigo:'' @ toUpperCase ''abc123'')
        = Some (JsonText (JObj [(''chat_id'', JNum 42), (''firma'', JStr f),
                                (''timestamp'', JNum 5)]))" for f
    unfolding up by (simp add: example_record_get at_time_def verification_record_def)
  have agree: "\<forall>k. k \<noteq> ''firma'' \<longrightarrow>
      map_of [(''chat_id'', JNum 42), (''firma'', JStr ''F5C79495''), (''timestamp'', JNum 5)] k
      = map_of [(''chat_id'', JNum 42), (''firma'', JStr ''00000000''), (''timestamp'', JNum 5)] k"
    by simp
  have "''abc123'' \<noteq> [] \<and> \<not> kv_get_throws (at_time 6)"
    by (simp add: at_time_def)
  with lookup_independent_of_firma [OF example_lookup_param get get agree]
  show ?thesis by blast
qed

subsection \<open>Failures and other messages in the webhook\<close>

lemma webhook_try_start:
  assumes "message_text req = Some msg" and "startsWith msg ''/start''"
    and "message_chat_id req = Some cid"
  shows "webhook_try a req w = activate a (Some cid) msg w"
  using assms
  by (auto simp: webhook_try_def request_json_def message_text_def message_chat_id_def
      split: option.splits json.splits)

lemma activate_failure:
  assumes "snd (activate a chatId msg w) = Inl err"
  shows "network (fst (activate a chatId msg w)) = network w"
proof (cases "length (split msg CHR '' '') < 2")
  case True
  with assms show ?thesis
    by (simp add: activate_def Let_def sendTelegramMessage_def split: if_splits)
next
  case False
  with assms show ?thesis
    by (simp add: activate_def Let_def sendTelegramMessage_def calcularFirma_eq
        split: if_splits)
qed

lemma webhook_try_frame:
  "fst (webhook_try a req w) = w
   \<or> (\<exists>chatId msg. webhook_try a req w = activate a chatId msg w)"
  by (auto simp: webhook_try_def split: sum.splits option.splits json.splits)

lemma webhook_try_failure:
  assumes "snd (webhook_try a req w) = Inl err"
  shows "network (fst (webhook_try a req w)) = network w"
  using webhook_try_frame [of a req w] assms activate_failure by auto

text \<open>
  Claim C6: the webhook handler always returns a response; and when anything inside its
  \<^verbatim>\<open>try\<close> block throws (the parse of the body, a property read, the hashing, the store
  write or the outbound call), the response is the 500 and the request has sent no
  notification.
\<close>

theorem webhook_errors_are_caught:
  "(\<exists>r. snd (handleTelegramWebhook a req w) = Inr r)
   \<and> (snd (webhook_try a req w) = Inl err
        \<longrightarrow> snd (handleTelegramWebhook a req w) = Inr (Response ''Error'' 500)
            \<and> network (fst (handleTelegramWebhook a req w)) = network w)"
proof (cases "webhook_try a req w")
  case (Pair w' res)
  show ?thesis
  proof (cases res)
    case (Inl e)
    with Pair webhook_try_failure [of a req w e] show ?thesis
      by (simp add: handleTelegramWebhook_def)
  next
    case (Inr r)
    with Pair show ?thesis
      by (simp add: handleTelegramWebhook_def)
  qed
qed

lemma webhook_failure_causes:
  "body_json req = None \<Longrightarrow> snd (webhook_try a req w) = Inl SyntaxError"
  "issuance_event req cid c \<Longrightarrow> TELEGRAM_SECRET_KEY (bindings w) = []
     \<Longrightarrow> snd (webhook_try a req w) = Inl DataError"
  "issuance_event req cid c \<Longrightarrow> TELEGRAM_SECRET_KEY (bindings w) \<noteq> [] \<Longrightarrow> kv_put_throws a
     \<Longrightarrow> snd (webhook_try a req w) = Inl KVError"
  "issuance_event req cid c \<Longrightarrow> TELEGRAM_SECRET_KEY (bindings w) \<noteq> [] \<Longrightarrow> \<not> kv_put_throws a
     \<Longrightarrow> fetch_throws a \<Longrightarrow> snd (webhook_try a req w) = Inl NetworkError"
proof -
  show "snd (webhook_try a req w) = Inl SyntaxError" if "body_json req = None"
    using that by (simp add: webhook_try_def request_json_def)
next
  assume ev: "issuance_event req cid c"
  then obtain msg where msg: "activation_code msg = Some c"
    and body: "webhook_try a req w = activate a (Some cid) msg w"
    by (rule webhook_try_issuance)
  note parts = activation_code_parts [OF msg]
  show "snd (webhook_try a req w) = Inl DataError" if "TELEGRAM_SECRET_KEY (bindings w) = []"
    using that parts by (simp add: body activate_def Let_def calcularFirma_eq)
  show "snd (webhook_try a req w) = Inl KVError"
    if "TELEGRAM_SECRET_KEY (bindings w) \<noteq> []" "kv_put_throws a"
    using that parts by (simp add: body activate_def Let_def calcularFirma_eq)
  show "snd (webhook_try a req w) = Inl NetworkError"
    if "TELEGRAM_SECRET_KEY (bindings w) \<noteq> []" "\<not> kv_put_throws a" "fetch_throws a"
    using that parts
    by (simp add: body activate_def Let_def calcularFirma_eq sendTelegramMessage_def)
qed

theorem webhook_errors_are_caught_witness:
  "snd (handleTelegramWebhook (at_time 5) (webhook_request None) (example_world True))
     = Inr \<lparr>status = 500, body = RawText ''Error''\<rparr>
   \<and> snd (handleTelegramWebhook (at_time 5)
            (webhook_request (Some (start_update 42 ''/start abc123'')))
            ((example_world True)\<lparr>bindings :=
                (bindings (example_world True))\<lparr>TELEGRAM_SECRET_KEY := []\<rparr>\<rparr>))
     = Inr \<lparr>status = 500, body = RawText ''Error''\<rparr>
   \<and> snd (handleTelegramWebhook ((at_time 5)\<lparr>kv_put_throws := True\<rparr>)
            (webhook_request (Some (start_update 42 ''/start abc123''))) (example_world True))
     = Inr \<lparr>status = 500, body = RawText ''Error''\<rparr>
   \<and> snd (handleTelegramWebhook ((at_time 5)\<lparr>fetch_throws := True\<rparr>)
            (webhook_request (Some (start_update 42 ''/start abc123''))) (example_world True))
     = Inr \<lparr>status = 500, body = RawText ''Error''\<rparr>
   \<and> network (fst (handleTelegramWebhook ((at_time 5)\<lparr>fetch_throws := True\<rparr>)
            (webhook_request (Some (start_update 42 ''/start abc123''))) (example_world True)))
     = []"
proof -
  let ?req = "webhook_request (Some (start_update 42 ''/start abc123''))"
  let ?nokey = "(example_world True)\<lparr>bindings :=
                  (bindings (example_world True))\<lparr>TELEGRAM_SECRET_KEY := []\<rparr>\<rparr>"
  have "snd (webhook_try (at_time 5) (webhook_request None) (example_world True)) = Inl SyntaxError"
    by (rule webhook_failure_causes(1)) (simp add: webhook_request_def)
  from webhook_errors_are_caught [THEN conjunct2, rule_format, OF this]
  have one: "snd (handleTelegramWebhook (at_time 5) (webhook_request None) (example_world True))
      = Inr (Response ''Error'' 500)"
    by simp
  have "snd (webhook_try (at_time 5) ?req ?nokey) = Inl DataError"
    by (rule webhook_failure_causes(2) [OF example_event]) simp
  from webhook_errors_are_caught [THEN conjunct2, rule_format, OF this]
  have two: "snd (handleTelegramWebhook (at_time 5) ?req ?nokey) = Inr (Response ''Error'' 500)"
    by simp
  have "snd (webhook_try ((at_time 5)\<lparr>kv_put_throws := True\<rparr>) ?req (example_world True))
      = Inl KVError"
    by (rule webhook_failure_causes(3) [OF example_event]) (simp_all add: example_secret)
  from webhook_errors_are_caught [THEN conjunct2, rule_format, OF this]
  have three: "snd (handleTelegramWebhook ((at_time 5)\<lparr>kv_put_throws := True\<rparr>) ?req
      (example_world True)) = Inr (Response ''Error'' 500)"
    by simp
  have "snd (webhook_try ((at_time 5)\<lparr>fetch_throws := True\<rparr>) ?req (example_world True))
      = Inl NetworkError"
    by (rule webhook_failure_causes(4) [OF example_event])
      (simp_all add: example_secret at_time_def)
  from webhook_errors_are_caught [THEN conjunct2, rule_format, OF this]
  have four: "snd (handleTelegramWebhook ((at_time 5)\<lparr>fetch_throws := True\<rparr>) ?req
      (example_world True)) = Inr (Response ''Error'' 500)"
    and five: "network (fst (handleTelegramWebhook ((at_time 5)\<lparr>fetch_throws := True\<rparr>) ?req
      (example_world True))) = network (example_world True)"
    by simp_all
  show ?thesis
    unfolding one two three four five by (simp add: Response_def example_world_def)
qed







subsection \<open>The usage branch\<close>

lemma activate_result:
  assumes "activation_code msg = Some c" and "TELEGRAM_SECRET_KEY (bindings w) \<noteq> []"
    and "\<not> kv_put_throws a" and "\<not> fetch_throws a"
  shows "activate a (Some cid) msg w =
           (w\<lparr>bindings := (bindings w)\<lparr>LIBRIA_KV :=
                  kv_put (LIBRIA_KV (bindings w)) (now a) (record_key c)
                    (verification_record cid
                       (verification_code (TELEGRAM_SECRET_KEY (bindings w)) c) (now a)) 600\<rparr>,
              network := network w @
                [\<lparr>call_url = ''https://api.telegram.org/bot'' @ TELEGRAM_BOT_TOKEN (bindings w)
                                @ ''/sendMessage'',
                  call_method = ''POST'',
                  call_headers = [(''Content-Type'', ''application/json'')],
                  call_body = JsonText (JObj
                    [(''chat_id'', cid),
                     (''text'', JStr (confirmation_text
                        (verification_code (TELEGRAM_SECRET_KEY (bindings w)) c))),
                     (''parse_mode'', JStr ''Markdown'')])\<rparr>]\<rparr>,
            Inr (Response ''OK'' 200))"
  using assms activation_code_parts [OF assms(1)]
  by (simp add: activate_def Let_def calcularFirma_eq sendTelegramMessage_def record_key_def
      verification_code_def stringify_record) (simp add: JSON_stringify_def)

lemma no_argument_parts:
  assumes "activation_code msg = None"
  shows "length (split msg CHR '' '') < 2"
  using assms by (auto simp: activation_code_def split: list.splits)

text \<open>
  The usage branch: a text that starts with the command and has no space in it is answered
  with the usage message, without a store write.
\<close>

lemma usage_error_without_argument:
  assumes "message_text req = Some msg" and "startsWith msg ''/start''"
    and "activation_code msg = None" and "message_chat_id req = Some cid"
    and "\<not> fetch_throws a"
  shows "handleTelegramWebhook a req w =
           (w\<lparr>network := network w @
                [\<lparr>call_url = ''https://api.telegram.org/bot'' @ TELEGRAM_BOT_TOKEN (bindings w)
                                @ ''/sendMessage'',
                  call_method = ''POST'',
                  call_headers = [(''Content-Type'', ''application/json'')],
                  call_body = JsonText (JObj [(''chat_id'', cid), (''text'', JStr usage_text)])\<rparr>]\<rparr>,
            Inr (Response ''OK'' 200))"
  using assms(5) no_argument_parts [OF assms(3)]
  by (simp add: handleTelegramWebhook_def webhook_try_start [OF assms(1,2,4)] activate_def
      Let_def sendTelegramMessage_def JSON_stringify_def)

text \<open>
  Claim C4 at the text \<^verbatim>\<open>/start\<close> followed by one space: the argument is the empty string,
  but the split has two parts, so the usage branch is not taken. The handler stores a record
  under the key \<^verbatim>\<open>codigo:\<close> and sends the confirmation, not the usage message; the lookup
  treats the same empty code as a missing parameter.
\<close>

theorem empty_code_is_activated:
  "activation_code ''/start '' = Some []
   \<and> entries (LIBRIA_KV (bindings (fst (handleTelegramWebhook (at_time 5)
                 (webhook_request (Some (start_update 42 ''/start '')))
                 (example_world True))))) ''codigo:''
       = Some (JsonText (JObj [(''chat_id'', JNum 42), (''firma'', JStr ''3C81CC94''),
                               (''timestamp'', JNum 5)]), 600005)
   \<and> map call_body (network (fst (handleTelegramWebhook (at_time 5)
                 (webhook_request (Some (start_update 42 ''/start '')))
                 (example_world True))))
       = [JsonText (JObj [(''chat_id'', JNum 42),
                          (''text'', JStr (confirmation_text ''3C81CC94'')),
                          (''parse_mode'', JStr ''Markdown'')])]
   \<and> snd (handleTelegramWebhook (at_time 5)
                 (webhook_request (Some (start_update 42 ''/start '')))
                 (example_world True))
       = Inr \<lparr>status = 200, body = RawText ''OK''\<rparr>
   \<and> snd (handleGetChatId (at_time 6) (lookup_request [(''codigo'', [])])
            (fst (handleTelegramWebhook (at_time 5)
                 (webhook_request (Some (start_update 42 ''/start '')))
                 (example_world True))))
       = Inr \<lparr>status = 400, body = JsonText (JObj [(''error'', JStr
               (''Falta par'' @ [CHR 0xC3, CHR 0xA1] @ ''metro: codigo''))])\<rparr>"
proof -
  let ?req = "webhook_request (Some (start_update 42 ''/start ''))"
  let ?w = "example_world True"
  have code: "activation_code ''/start '' = Some []"
    by (simp add: activation_code_def)
  have msg: "message_text ?req = Some ''/start ''" "startsWith ''/start '' ''/start''"
    "message_chat_id ?req = Some (JNum 42)"
    by (simp_all add: message_text_def message_chat_id_def webhook_request_def start_update_def
        startsWith_def)
  have env: "TELEGRAM_SECRET_KEY (bindings ?w) \<noteq> []" "\<not> kv_put_throws (at_time 5)"
    "\<not> fetch_throws (at_time 5)"
    by (simp_all add: example_secret at_time_def)
  have firma: "verification_code (TELEGRAM_SECRET_KEY (bindings ?w)) [] = ''3C81CC94''"
    by (simp add: example_secret verification_code_def toUpperCase_def example_hmac_empty)
  have "webhook_try (at_time 5) ?req ?w = activate (at_time 5) (Some (JNum 42)) ''/start '' ?w"
    by (rule webhook_try_start [OF msg])
  then have run: "handleTelegramWebhook (at_time 5) ?req ?w =
      (?w\<lparr>bindings := (bindings ?w)\<lparr>LIBRIA_KV :=
                  kv_put (LIBRIA_KV (bindings ?w)) (now (at_time 5)) (record_key [])
                    (verification_record (JNum 42) ''3C81CC94'' (now (at_time 5))) 600\<rparr>,
              network := network ?w @
                [\<lparr>call_url = ''https://api.telegram.org/bot'' @ TELEGRAM_BOT_TOKEN (bindings ?w)
                                @ ''/sendMessage'',
                  call_method = ''POST'',
                  call_headers = [(''Content-Type'', ''application/json'')],
                  call_body = JsonText (JObj
                    [(''chat_id'', JNum 42),
                     (''text'', JStr (confirmation_text ''3C81CC94'')),
                     (''parse_mode'', JStr ''Markdown'')])\<rparr>]\<rparr>,
            Inr (Response ''OK'' 200))"
    by (simp only: handleTelegramWebhook_def activate_result [OF code env] firma
        prod.case sum.case)
  have look: "snd (handleGetChatId (at_time 6) (lookup_request [(''codigo'', [])]) w')
      = Inr (Response_json missing_param_body 400)" for w'
    by (simp add: lookup_missing_param example_lookup_param)
  show ?thesis
    unfolding run look
    by (simp add: code record_key_def toUpperCase_def kv_put_def verification_record_def
        at_time_def example_world_def Response_def Response_json_def missing_param_body_def
        JSON_stringify_def)
qed

subsection \<open>Reachable stores\<close>

text \<open>
  The webhook is the only writer of the namespace, and what it writes is the text of a JSON
  object with a time to live of 600 seconds. On such a store the lookup never throws
  (unless the store read itself does).
\<close>

lemma activate_store_cases:
  "LIBRIA_KV (bindings (fst (activate a chatId msg w))) = LIBRIA_KV (bindings w)
   \<or> (\<exists>key fs. LIBRIA_KV (bindings (fst (activate a chatId msg w)))
                 = kv_put (LIBRIA_KV (bindings w)) (now a) key (JsonText (JObj fs)) 600)"
proof (cases "length (split msg CHR '' '') < 2")
  case True
  then show ?thesis
    by (simp add: activate_def Let_def sendTelegramMessage_def)
next
  case False
  then show ?thesis
    by (auto simp: activate_def Let_def sendTelegramMessage_def calcularFirma_eq
        JSON_stringify_def)
qed

lemma webhook_store_cases:
  "LIBRIA_KV (bindings (fst (handleTelegramWebhook a req w))) = LIBRIA_KV (bindings w)
   \<or> (\<exists>key fs. LIBRIA_KV (bindings (fst (handleTelegramWebhook a req w)))
                 = kv_put (LIBRIA_KV (bindings w)) (now a) key (JsonText (JObj fs)) 600)"
proof -
  have eq: "fst (handleTelegramWebhook a req w) = fst (webhook_try a req w)"
    by (simp add: handleTelegramWebhook_def split: prod.splits sum.splits)
  from webhook_try_frame [of a req w] show ?thesis
  proof
    assume "fst (webhook_try a req w) = w"
    with eq show ?thesis by simp
  next
    assume "\<exists>chatId msg. webhook_try a req w = activate a chatId msg w"
    then obtain chatId msg where "webhook_try a req w = activate a chatId msg w"
      by blast
    with eq activate_store_cases [of a chatId msg w] show ?thesis by simp
  qed
qed

lemma webhook_keeps_records:
  assumes "records_only (LIBRIA_KV (bindings w))"
  shows "records_only (LIBRIA_KV (bindings (fst (handleTelegramWebhook a req w))))"
proof -
  have put: "records_only (kv_put ns t key (JsonText (JObj fs)) ttl)" if "records_only ns"
    for ns t key fs ttl
    unfolding records_only_def
  proof (intro allI impI)
    fix k v e
    assume "entries (kv_put ns t key (JsonText (JObj fs)) ttl) k = Some (v, e)"
    then have "v = JsonText (JObj fs) \<or> entries ns k = Some (v, e)"
      by (simp add: kv_put_def split: if_splits)
    with that show "\<exists>fs. v = JsonText (JObj fs)"
      unfolding records_only_def by blast
  qed
  from webhook_store_cases [of a req w] assms put show ?thesis
    by auto
qed

lemma lookup_returns_on_records:
  assumes "records_only (LIBRIA_KV (bindings w))" and "\<not> kv_get_throws a"
  shows "\<exists>r. snd (handleGetChatId a q w) = Inr r"
proof (cases "searchParams_get q ''codigo''")
  case None
  then show ?thesis by (simp add: handleGetChatId_def)
next
  case (Some c)
  show ?thesis
  proof (cases "kv_get (LIBRIA_KV (bindings w)) (now a) (''codigo:'' @ toUpperCase c)")
    case None
    with Some assms(2) show ?thesis by (simp add: handleGetChatId_def)
  next
    case (Some v)
    then obtain t where "entries (LIBRIA_KV (bindings w)) (''codigo:'' @ toUpperCase c) = Some (v, t)"
      by (auto simp: kv_get_def split: option.splits if_splits)
    with assms(1) obtain fs where "v = JsonText (JObj fs)"
      by (auto simp: records_only_def)
    with Some \<open>searchParams_get q ''codigo'' = Some c\<close> assms(2) show ?thesis
      by (simp add: handleGetChatId_def)
  qed
qed

subsection \<open>The router\<close>

text \<open>
  A POST to \<^verbatim>\<open>/webhook\<close> reaches the webhook handler, a GET to \<^verbatim>\<open>/get-chat-id\<close> the lookup;
  any other request is answered by the liveness text and changes nothing.
\<close>

lemma route_webhook:
  "worker_fetch a (webhook_request b) w = handleTelegramWebhook a (webhook_request b) w"
  by (simp add: worker_fetch_def webhook_request_def)

lemma route_lookup:
  "worker_fetch a (lookup_request ps) w = handleGetChatId a (lookup_request ps) w"
  by (simp add: worker_fetch_def lookup_request_def)

lemma route_other:
  assumes "\<not> (pathname req = ''/webhook'' \<and> http_method req = ''POST'')"
    and "\<not> (pathname req = ''/get-chat-id'' \<and> http_method req = ''GET'')"
  shows "worker_fetch a req w = (w, Inr (Response ''LibrIA Telegram Bot - OK'' 200))"
  using assms by (auto simp: worker_fetch_def)

end
